theory Spec2Isabelle
  imports Main
begin

section \<open>Outcomes\<close>

text \<open>
  The tools end a run either by returning, by \<^verbatim>\<open>sys.exit(code)\<close>, or by an exception that
  nothing catches. A function that can fail returns \<open>failure + 'a\<close>, with \<open>Inl\<close> the failure.
  Terminal output (\<^verbatim>\<open>terminal.info\<close>, \<^verbatim>\<open>warning\<close>, \<^verbatim>\<open>error\<close>) changes nothing the
  functions compute and is left out.
\<close>

datatype failure =
  SystemExit nat
  | InvalidVersion
  | IndexError
  | VersionError
  | AttributeError
  | FileNotFoundError
  | CalledProcessError
  | UnboundLocalError
  | TypeError

section \<open>Version calculator: pontos/release/helper.py\<close>

text \<open>
  \<^verbatim>\<open>packaging.version.Version\<close> is an external library. The functions below read four
  properties of a parsed version: \<^verbatim>\<open>major\<close>, \<^verbatim>\<open>minor\<close>, \<^verbatim>\<open>micro\<close> (non-negative
  integers) and \<^verbatim>\<open>dev\<close> (\<^verbatim>\<open>None\<close> or the number of the dev marker). A parsed version is
  a record of these four.
\<close>

record version =
  major :: nat
  minor :: nat
  micro :: nat
  dev :: "nat option"

text \<open>\<^verbatim>\<open>datetime.date\<close>: the functions read \<^verbatim>\<open>year\<close> and \<^verbatim>\<open>month\<close> of today's date.\<close>

record date =
  year :: nat
  month :: nat
  day :: nat

text \<open>
  What \<^verbatim>\<open>get_current_version\<close> followed by \<^verbatim>\<open>Version(...)\<close> finds in the working
  directory: no project definition file (neither \<^verbatim>\<open>CMakeLists.txt\<close> nor
  \<^verbatim>\<open>pyproject.toml\<close>), a file from which the version command cannot read a version (it
  raises \<^verbatim>\<open>VersionError\<close>), a file whose version string \<^verbatim>\<open>packaging\<close> rejects, or a
  file with a version that parses.
\<close>

datatype project_definition =
  No_project_file
  | Version_command_fails
  | Unparsable_version
  | Current_version version

text \<open>\<^verbatim>\<open>str(n)\<close> of a non-negative integer: its decimal digits.\<close>

function str_nat :: "nat \<Rightarrow> string" where
  "str_nat n =
     (if n < 10 then [''0123456789'' ! n]
      else str_nat (n div 10) @ [''0123456789'' ! (n mod 10)])"
  by pat_completeness auto
termination
  by (relation "measure id") auto

text \<open>
  \<^verbatim>\<open>str(Version(f"{a}.{b}.{c}"))\<close> for three non-negative integers: the release segment
  is printed back as \<^verbatim>\<open>a.b.c\<close>.
\<close>

definition release_str :: "nat \<Rightarrow> nat \<Rightarrow> nat \<Rightarrow> string" where
  "release_str a b c = str_nat a @ ''.'' @ str_nat b @ ''.'' @ str_nat c"

text \<open>
  \<^verbatim>\<open>get_current_version\<close> (lines 112-128) with the parse of its result (lines 77, 148):
  \<^verbatim>\<open>sys.exit(1)\<close> when no project settings file is found, \<^verbatim>\<open>VersionError\<close> raised by
  \<^verbatim>\<open>cmd().get_current_version()\<close>, \<^verbatim>\<open>InvalidVersion\<close> raised by \<^verbatim>\<open>Version(...)\<close> when
  the string does not parse.
\<close>

fun get_current_version :: "project_definition \<Rightarrow> failure + version" where
  "get_current_version No_project_file = Inl (SystemExit 1)"
| "get_current_version Version_command_fails = Inl VersionError"
| "get_current_version Unparsable_version = Inl InvalidVersion"
| "get_current_version (Current_version v) = Inr v"

text \<open>
  \<^verbatim>\<open>calculate_calendar_version\<close> (lines 72-109). The three branches are those of the
  source, in its order, with its conditions: the first is an \<^verbatim>\<open>or\<close> of two comparisons.
\<close>

definition calculate_calendar_version :: "project_definition \<Rightarrow> date \<Rightarrow> failure + string" where
  "calculate_calendar_version pd today =
     (case get_current_version pd of
        Inl e \<Rightarrow> Inl e
      | Inr current_version \<Rightarrow>
          if major current_version < year today mod 100
             \<or> minor current_version < month today
          then Inr (release_str (year today mod 100) (month today) 0)
          else if major current_version = year today mod 100
                  \<and> minor current_version = month today
          then (if dev current_version = None
                then Inr (release_str (year today mod 100) (month today)
                            (micro current_version + 1))
                else Inr (release_str (year today mod 100) (month today)
                            (micro current_version)))
          else Inl (SystemExit 1))"

text \<open>\<^verbatim>\<open>get_next_patch_version\<close> (lines 144-163).\<close>

definition get_next_patch_version :: "project_definition \<Rightarrow> failure + string" where
  "get_next_patch_version pd =
     (case get_current_version pd of
        Inl e \<Rightarrow> Inl e
      | Inr current_version \<Rightarrow>
          if dev current_version \<noteq> None
          then Inr (release_str (major current_version) (minor current_version)
                      (micro current_version))
          else Inr (release_str (major current_version) (minor current_version)
                      (micro current_version + 1)))"

section \<open>Conventional-commit changelog: pontos/changelog/conventional_commits.py\<close>

text \<open>
  Strings are Python \<^verbatim>\<open>str\<close> values; the model covers ASCII text, one \<^typ>\<open>char\<close> per
  character.
\<close>

definition ADDRESS :: string where
  "ADDRESS = ''https://github.com/''"

text \<open>One entry of the configuration's \<^verbatim>\<open>commit_types\<close> list.\<close>

record commit_type =
  message :: string
  group :: string

text \<open>
  The fields of \<^verbatim>\<open>ChangelogBuilder\<close> that \<^verbatim>\<open>_sort_commits\<close> and
  \<^verbatim>\<open>_build_changelog_file\<close> read. The two versions are \<^verbatim>\<open>None\<close> or a string.
\<close>

record changelog_builder =
  commit_types :: "commit_type list"
  space :: string
  project :: string
  current_version :: "string option"
  next_version :: "string option"

subsection \<open>The regular expression of line 128\<close>

text \<open>
  \<^verbatim>\<open>re.compile(fr'{commit_type["message"]}\s?[:|-]', flags=re.I)\<close>: the rule's message,
  then at most one whitespace character, then one character of the class \<^verbatim>\<open>[:|-]\<close>, which
  holds the colon, the vertical bar and the hyphen. The message is interpolated as a
  regular-expression fragment; the model covers a message without regular-expression
  metacharacters (\<open>literal\<close> below), which matches itself, ignoring case.
\<close>

datatype re_item =
  Chr char
  | Opt_space
  | One_of string

definition re_compile :: "string \<Rightarrow> re_item list" where
  "re_compile msg = map Chr msg @ [Opt_space, One_of '':|-'']"

text \<open>The code point of the lower-case form of an ASCII character (\<^verbatim>\<open>re.I\<close>).\<close>

definition lower :: "char \<Rightarrow> nat" where
  "lower c = (let n = of_char c in if 65 \<le> n \<and> n \<le> 90 then n + 32 else n)"

text \<open>
  Whitespace, as \<^verbatim>\<open>\s\<close> and \<^verbatim>\<open>str.strip()\<close> know it in ASCII: tab, line feed, vertical
  tab, form feed, carriage return, the four separators 0x1C to 0x1F, and the space.
\<close>

definition isspace :: "char \<Rightarrow> bool" where
  "isspace c = (of_char c \<in> {9, 10, 11, 12, 13, 28, 29, 30, 31, 32 :: nat})"

text \<open>
  \<^verbatim>\<open>reg.match(text)\<close>: the match is anchored at the start of the text. The result is
  \<^verbatim>\<open>match.group(0)\<close>, the text matched, or \<open>None\<close>. The optional whitespace is greedy:
  it is taken first, and given back when the rest does not match.
\<close>

fun re_match :: "re_item list \<Rightarrow> string \<Rightarrow> string option" where
  "re_match [] s = Some []"
| "re_match (Chr c # r) s =
     (case s of
        [] \<Rightarrow> None
      | x # xs \<Rightarrow> if lower x = lower c then map_option ((#) x) (re_match r xs) else None)"
| "re_match (Opt_space # r) s =
     (case s of
        [] \<Rightarrow> re_match r []
      | x # xs \<Rightarrow>
          if isspace x
          then (case re_match r xs of
                  Some m \<Rightarrow> Some (x # m)
                | None \<Rightarrow> re_match r (x # xs))
          else re_match r (x # xs))"
| "re_match (One_of cs # r) s =
     (case s of
        [] \<Rightarrow> None
      | x # xs \<Rightarrow> if x \<in> set cs then map_option ((#) x) (re_match r xs) else None)"

subsection \<open>String methods\<close>

text \<open>\<^verbatim>\<open>s.split(' ', maxsplit=1)\<close>: one element without a space, two with one.\<close>

definition split_once :: "string \<Rightarrow> string list" where
  "split_once s =
     (case dropWhile (\<lambda>c. c \<noteq> CHR '' '') s of
        [] \<Rightarrow> [s]
      | _ # rest \<Rightarrow> [takeWhile (\<lambda>c. c \<noteq> CHR '' '') s, rest])"

text \<open>\<^verbatim>\<open>s.strip()\<close>.\<close>

definition strip :: "string \<Rightarrow> string" where
  "strip s = rev (dropWhile isspace (rev (dropWhile isspace s)))"

text \<open>
  \<^verbatim>\<open>s.replace(old, '')\<close>: every occurrence of \<open>old\<close> is removed, scanning from the left
  without overlap; an empty \<open>old\<close> leaves the string as it is.
\<close>

function remove_all :: "string \<Rightarrow> string \<Rightarrow> string" where
  "remove_all old [] = []"
| "remove_all old (c # cs) =
     (if old \<noteq> [] \<and> take (length old) (c # cs) = old
      then remove_all old (drop (length old) (c # cs))
      else c # remove_all old cs)"
  by pat_completeness auto
termination
  by (relation "measure (\<lambda>(old, s). length s)") auto

subsection \<open>The dictionary of grouped commits\<close>

text \<open>
  \<^verbatim>\<open>commit_dict\<close> maps a group label to the list of its entries. Python dictionaries keep
  insertion order, so the model is an association list with one pair per key, in the
  order the keys were inserted.
\<close>

type_synonym commit_dict = "(string \<times> string list) list"

text \<open>
  Lines 133-143: \<^verbatim>\<open>if key not in commit_dict: commit_dict[key] = []\<close> followed by
  \<^verbatim>\<open>commit_dict[key].append(entry)\<close>.
\<close>

fun dict_append :: "commit_dict \<Rightarrow> string \<Rightarrow> string \<Rightarrow> commit_dict" where
  "dict_append [] key entry = [(key, [entry])]"
| "dict_append ((k, es) # d) key entry =
     (if k = key then (k, es @ [entry]) # d else (k, es) # dict_append d key entry)"

text \<open>\<^verbatim>\<open>commit_dict[key]\<close> for a key of the dictionary; the empty list for any other.\<close>

definition entries :: "commit_dict \<Rightarrow> string \<Rightarrow> string list" where
  "entries d key = (case map_of d key of None \<Rightarrow> [] | Some es \<Rightarrow> es)"

subsection \<open>\<^verbatim>\<open>_sort_commits\<close> (lines 100-148)\<close>

text \<open>
  The body of the inner loop for one rule that matched with \<^verbatim>\<open>match.group(0) = matched\<close>
  (lines 137-143): the entry appended for commit \<^verbatim>\<open>[sha, msg]\<close>.
\<close>

definition changelog_entry :: "string \<Rightarrow> string \<Rightarrow> string \<Rightarrow> string \<Rightarrow> string" where
  "changelog_entry commit_link sha msg matched =
     strip (remove_all matched msg) @ '' ['' @ sha @ '']('' @ commit_link @ sha @ '')''"

text \<open>
  The inner loop (lines 127-144) over the rules, for one split commit line. \<^verbatim>\<open>commit[1]\<close>
  raises \<^verbatim>\<open>IndexError\<close> when the line had no space. There is no \<^verbatim>\<open>break\<close>: after a
  match the loop goes on with the next rule.
\<close>

fun sort_commit :: "string \<Rightarrow> string list \<Rightarrow> commit_type list \<Rightarrow> commit_dict
                    \<Rightarrow> failure + commit_dict" where
  "sort_commit commit_link commit [] d = Inr d"
| "sort_commit commit_link commit (ct # cts) d =
     (case commit of
        sha # msg # _ \<Rightarrow>
          (case re_match (re_compile (message ct)) msg of
             None \<Rightarrow> sort_commit commit_link commit cts d
           | Some matched \<Rightarrow>
               sort_commit commit_link commit cts
                 (dict_append d (group ct) (changelog_entry commit_link sha msg matched)))
      | _ \<Rightarrow> Inl IndexError)"

text \<open>The outer loop (lines 125-126) over the log lines.\<close>

fun sort_lines :: "string \<Rightarrow> commit_type list \<Rightarrow> string list \<Rightarrow> commit_dict
                   \<Rightarrow> failure + commit_dict" where
  "sort_lines commit_link cts [] d = Inr d"
| "sort_lines commit_link cts (line # rest) d =
     (case sort_commit commit_link (split_once line) cts d of
        Inl e \<Rightarrow> Inl e
      | Inr d' \<Rightarrow> sort_lines commit_link cts rest d')"

text \<open>
  \<^verbatim>\<open>_sort_commits\<close>. The argument is what \<^verbatim>\<open>_get_git_log\<close> returns: \<^verbatim>\<open>None\<close> or a list
  of lines. An empty dictionary ends the run with \<^verbatim>\<open>sys.exit(1)\<close>.
\<close>

definition commit_link :: "changelog_builder \<Rightarrow> string" where
  "commit_link self = ADDRESS @ space self @ ''/'' @ project self @ ''/commit/''"

definition sort_commits :: "changelog_builder \<Rightarrow> string list option
                            \<Rightarrow> failure + commit_dict" where
  "sort_commits self commits =
     (case (case commits of
              None \<Rightarrow> Inr []
            | Some lines \<Rightarrow> sort_lines (commit_link self) (commit_types self) lines [])
      of Inl e \<Rightarrow> Inl e
       | Inr d \<Rightarrow> if d = [] then Inl (SystemExit 1) else Inr d)"

subsection \<open>Names for what the loops compute\<close>

text \<open>
  The test of lines 131-132, \<^verbatim>\<open>reg.match(commit[1])\<close> is not \<^verbatim>\<open>None\<close>, for one rule and
  one commit message.
\<close>

definition matches :: "commit_type \<Rightarrow> string \<Rightarrow> bool" where
  "matches ct msg = (re_match (re_compile (message ct)) msg \<noteq> None)"

text \<open>The entry lines 137-143 append for a rule that matches.\<close>

definition rule_entry :: "string \<Rightarrow> string \<Rightarrow> string \<Rightarrow> commit_type \<Rightarrow> string" where
  "rule_entry link sha msg ct =
     changelog_entry link sha msg (the (re_match (re_compile (message ct)) msg))"

text \<open>\<^verbatim>\<open>commit[0]\<close> and \<^verbatim>\<open>commit[1]\<close> of a log line that holds a space.\<close>

definition line_hash :: "string \<Rightarrow> string" where
  "line_hash line = takeWhile (\<lambda>c. c \<noteq> CHR '' '') line"

definition line_message :: "string \<Rightarrow> string" where
  "line_message line = drop 1 (dropWhile (\<lambda>c. c \<noteq> CHR '' '') line)"

text \<open>One pass of the inner loop's body for a matching rule, and the inner loop as a fold.\<close>

definition add_rule :: "string \<Rightarrow> string \<Rightarrow> string \<Rightarrow> commit_dict \<Rightarrow> commit_type
                        \<Rightarrow> commit_dict" where
  "add_rule link sha msg d ct = dict_append d (group ct) (rule_entry link sha msg ct)"

definition add_line :: "string \<Rightarrow> commit_type list \<Rightarrow> commit_dict \<Rightarrow> string \<Rightarrow> commit_dict" where
  "add_line link cts d line =
     foldl (add_rule link (line_hash line) (line_message line)) d
       (filter (\<lambda>ct. matches ct (line_message line)) cts)"

text \<open>Whether some rule of the list matches the message of a log line.\<close>

definition conventional :: "commit_type list \<Rightarrow> string \<Rightarrow> bool" where
  "conventional cts line = (filter (\<lambda>ct. matches ct (line_message line)) cts \<noteq> [])"

subsection \<open>The inputs the model covers\<close>

definition ascii :: "string \<Rightarrow> bool" where
  "ascii s = list_all (\<lambda>c. of_char c < (128 :: nat)) s"

text \<open>
  A rule message that, as a regular expression, matches its own text: ASCII, and none of
  the metacharacters \<^verbatim>\<open>. ^ $ * + ? { } [ ] | ( )\<close> or the backslash.
\<close>

definition literal :: "string \<Rightarrow> bool" where
  "literal s =
     (ascii s \<and> list_all (\<lambda>c. c \<notin> set (''.^$*+?{}[]|()'' @ [CHR 0x5C])) s)"

definition plain_rules :: "commit_type list \<Rightarrow> bool" where
  "plain_rules cts = list_all (\<lambda>ct. literal (message ct)) cts"

text \<open>
  A line of \<^verbatim>\<open>git log --oneline\<close>: an abbreviated hash, a space, the subject. The line
  holds a space, so \<^verbatim>\<open>split\<close> gives two parts.
\<close>

definition log_lines :: "string list \<Rightarrow> bool" where
  "log_lines lines = list_all (\<lambda>line. CHR '' '' \<in> set line \<and> ascii line) lines"


subsection \<open>\<^verbatim>\<open>_build_changelog_file\<close> (lines 150-196)\<close>

text \<open>Python's truth value of \<^verbatim>\<open>None\<close> or a string: false for \<^verbatim>\<open>None\<close> and for \<^verbatim>\<open>''\<close>.\<close>

fun truthy :: "string option \<Rightarrow> bool" where
  "truthy None = False"
| "truthy (Some s) = (s \<noteq> [])"

text \<open>An f-string field holding \<^verbatim>\<open>None\<close> or a string.\<close>

fun fmt :: "string option \<Rightarrow> string" where
  "fmt None = ''None''"
| "fmt (Some s) = s"

text \<open>Lines 174-178: the section of one rule, empty when its group has no entry list.\<close>

definition changelog_section :: "commit_dict \<Rightarrow> commit_type \<Rightarrow> string" where
  "changelog_section d ct =
     (if group ct \<in> set (map fst d)
      then ''\<newline>## '' @ group ct @ ''\<newline>''
           @ concat (map (\<lambda>msg. ''* '' @ msg @ ''\<newline>'') (entries d (group ct)))
      else [])"

text \<open>Lines 180-191: the comparison line.\<close>

definition changelog_footer :: "changelog_builder \<Rightarrow> string" where
  "changelog_footer self =
     (let compare_link = ADDRESS @ space self @ ''/'' @ project self @ ''/compare/'' in
      if truthy (next_version self) \<and> truthy (current_version self)
      then ''\<newline>['' @ fmt (next_version self) @ '']: '' @ compare_link
           @ fmt (current_version self) @ ''...'' @ fmt (next_version self)
      else if truthy (current_version self)
      then ''\<newline>[Unreleased]: '' @ compare_link
           @ ''\<newline>'' @ fmt (current_version self) @ ''...HEAD''
      else ''\<newline>[Unreleased]: '' @ compare_link @ ''???...HEAD'')"

text \<open>
  The text \<^verbatim>\<open>_build_changelog_file\<close> writes to the output file; \<open>today\<close> is
  \<^verbatim>\<open>date.today().isoformat()\<close>.
\<close>

definition build_changelog_file :: "changelog_builder \<Rightarrow> string \<Rightarrow> commit_dict \<Rightarrow> string" where
  "build_changelog_file self today commit_dict =
     ''# Changelog\<newline>\<newline>''
     @ ''All notable changes to this project will be documented in this file.\<newline>\<newline>''
     @ (if truthy (next_version self)
        then ''## ['' @ fmt (next_version self) @ ''] - '' @ today @ ''\<newline>''
        else ''## [Unreleased]\<newline>\<newline>'')
     @ concat (map (changelog_section commit_dict) (commit_types self))
     @ changelog_footer self"

section \<open>Version command: pontos/version/version.py\<close>

text \<open>
  \<^verbatim>\<open>safe_version\<close> and \<^verbatim>\<open>check_develop\<close> are imported from \<^verbatim>\<open>pontos/version/helper.py\<close>
  and are not modelled here: the functions that call them take them as parameters, and
  each may raise.
\<close>

type_synonym safe_version_fn = "string \<Rightarrow> failure + string"

type_synonym check_develop_fn = "string \<Rightarrow> failure + bool"

text \<open>
  The two files a \<^verbatim>\<open>VersionCommand\<close> works on. \<^verbatim>\<open>pyproject.toml\<close> is missing, has no
  \<^verbatim>\<open>tool.poetry.version\<close>, or has one. The version module file is missing, cannot be
  imported, imports without a \<^verbatim>\<open>__version__\<close> (an empty file), or is the text of
  \<^verbatim>\<open>TEMPLATE\<close> with a version filled in.
\<close>

datatype pyproject_toml =
  No_pyproject_toml
  | No_poetry_version
  | Poetry_version string

datatype version_file =
  No_version_file
  | Not_importable
  | No_version_attribute
  | Version_module string

record version_command =
  pyproject_toml_path :: pyproject_toml
  version_file_path :: version_file

text \<open>\<^verbatim>\<open>get_version_from_pyproject_toml\<close> (lines 46-70).\<close>

definition get_version_from_pyproject_toml :: "pyproject_toml \<Rightarrow> failure + string" where
  "get_version_from_pyproject_toml toml =
     (case toml of
        No_pyproject_toml \<Rightarrow> Inl VersionError
      | No_poetry_version \<Rightarrow> Inl VersionError
      | Poetry_version v \<Rightarrow> Inr v)"

text \<open>
  \<^verbatim>\<open>VersionCommand.get_current_version\<close> (lines 108-121), called on a file that exists:
  \<^verbatim>\<open>VersionError\<close> when the import fails, \<^verbatim>\<open>AttributeError\<close> when the module has no
  \<^verbatim>\<open>__version__\<close>.
\<close>

definition module_current_version :: "version_command \<Rightarrow> failure + string" where
  "module_current_version self =
     (case version_file_path self of
        No_version_file \<Rightarrow> Inl VersionError
      | Not_importable \<Rightarrow> Inl VersionError
      | No_version_attribute \<Rightarrow> Inl AttributeError
      | Version_module v \<Rightarrow> Inr v)"

text \<open>
  \<^verbatim>\<open>versions_equal\<close> (lines 73-77): \<^verbatim>\<open>safe_version(old_version) == safe_version(new_version)\<close>,
  the left operand evaluated first.
\<close>

definition versions_equal :: "safe_version_fn \<Rightarrow> string \<Rightarrow> string \<Rightarrow> failure + bool" where
  "versions_equal safe_version new_version old_version =
     (case safe_version old_version of
        Inl e \<Rightarrow> Inl e
      | Inr old \<Rightarrow>
          (case safe_version new_version of
             Inl e \<Rightarrow> Inl e
           | Inr new \<Rightarrow> Inr (old = new)))"

text \<open>
  The methods that write return the failure raised, if any, and the files as they are
  then.
\<close>

text \<open>\<^verbatim>\<open>_update_pyproject_version\<close> (lines 132-157).\<close>

definition update_pyproject_version :: "safe_version_fn \<Rightarrow> version_command \<Rightarrow> string
                                        \<Rightarrow> failure option \<times> version_command" where
  "update_pyproject_version safe_version self new_version =
     (case safe_version new_version of
        Inl e \<Rightarrow> (Some e, self)
      | Inr v \<Rightarrow>
          if pyproject_toml_path self = No_pyproject_toml
          then (Some FileNotFoundError, self)
          else (None, self\<lparr>pyproject_toml_path := Poetry_version v\<rparr>))"

text \<open>\<^verbatim>\<open>_update_version_file\<close> (lines 123-130).\<close>

definition update_version_file :: "safe_version_fn \<Rightarrow> version_command \<Rightarrow> string
                                   \<Rightarrow> failure option \<times> version_command" where
  "update_version_file safe_version self new_version =
     (case safe_version new_version of
        Inl e \<Rightarrow> (Some e, self)
      | Inr v \<Rightarrow> (None, self\<lparr>version_file_path := Version_module v\<rparr>))"

text \<open>Lines 182-184 of \<^verbatim>\<open>update_version\<close>: the two writes, in this order.\<close>

definition write_version :: "safe_version_fn \<Rightarrow> version_command \<Rightarrow> string
                             \<Rightarrow> failure option \<times> version_command" where
  "write_version safe_version self new_version =
     (case update_pyproject_version safe_version self new_version of
        (Some e, self') \<Rightarrow> (Some e, self')
      | (None, self') \<Rightarrow> update_version_file safe_version self' new_version)"

text \<open>
  \<^verbatim>\<open>VersionCommand.update_version\<close> (lines 159-188). \<^verbatim>\<open>check_develop(new_version) and develop\<close>
  calls \<^verbatim>\<open>check_develop\<close> whatever \<^verbatim>\<open>develop\<close> is. A missing version file is created
  empty (\<^verbatim>\<open>touch\<close>) before the writes; with a version file present and no \<^verbatim>\<open>force\<close>,
  equal versions end the call with nothing written.
\<close>

definition update_version :: "safe_version_fn \<Rightarrow> check_develop_fn \<Rightarrow> version_command \<Rightarrow> string
                              \<Rightarrow> bool \<Rightarrow> bool \<Rightarrow> failure option \<times> version_command" where
  "update_version safe_version check_develop self new_version develop force =
     (case safe_version new_version of
        Inl e \<Rightarrow> (Some e, self)
      | Inr new_version1 \<Rightarrow>
          (case check_develop new_version1 of
             Inl e \<Rightarrow> (Some e, self)
           | Inr is_develop \<Rightarrow>
               let develop1 = (if is_develop \<and> develop then False else develop);
                   new_version2 = (if develop1 then new_version1 @ ''.dev1'' else new_version1)
               in (case get_version_from_pyproject_toml (pyproject_toml_path self) of
                     Inl e \<Rightarrow> (Some e, self)
                   | Inr pyproject_version \<Rightarrow>
                       if version_file_path self = No_version_file
                       then write_version safe_version
                              (self\<lparr>version_file_path := No_version_attribute\<rparr>) new_version2
                       else if \<not> force
                       then (case module_current_version self of
                               Inl e \<Rightarrow> (Some e, self)
                             | Inr current \<Rightarrow>
                                 (case versions_equal safe_version new_version2 current of
                                    Inl e \<Rightarrow> (Some e, self)
                                  | Inr True \<Rightarrow> (None, self)
                                  | Inr False \<Rightarrow>
                                      write_version safe_version self new_version2))
                       else write_version safe_version self new_version2)))"

section \<open>Release preparation: pontos/release/prepare.py and helper.py\<close>

subsection \<open>Effects\<close>

text \<open>
  The release tools act on the outside through four doors: a command given to
  \<^verbatim>\<open>shell_cmd_runner\<close>, a call of \<^verbatim>\<open>version.main\<close> (which rewrites the version files),
  \<^verbatim>\<open>Path.mkdir\<close> and \<^verbatim>\<open>Path.write_text\<close>. A run is modelled by its outcome and the
  list of these effects in the order they happen. Reading a file, listing the git tags
  and looking at the clock leave no effect.
\<close>

datatype effect =
  Shell string
  | Version_main "string option list"
  | Mkdir string
  | Write_text string string

type_synonym 'a run = "(failure + 'a) \<times> effect list"

definition result :: "'a \<Rightarrow> 'a run" where
  "result x = (Inr x, [])"

definition abort :: "failure \<Rightarrow> 'a run" where
  "abort e = (Inl e, [])"

text \<open>One statement after another: a failure of the first ends the run.\<close>

definition and_then :: "'a run \<Rightarrow> ('a \<Rightarrow> 'b run) \<Rightarrow> 'b run" where
  "and_then m f =
     (case m of
        (Inl e, effects) \<Rightarrow> (Inl e, effects)
      | (Inr x, effects) \<Rightarrow> (case f x of (r, effects') \<Rightarrow> (r, effects @ effects')))"

subsection \<open>The arguments and the world outside\<close>

text \<open>The fields of the argument namespace that \<^verbatim>\<open>prepare\<close> reads.\<close>

record prepare_args =
  arg_git_tag_prefix :: string
  arg_git_signing_key :: "string option"
  arg_project :: "string option"
  arg_space :: string
  arg_calendar :: bool
  arg_patch :: bool
  arg_release_version :: "string option"
  arg_conventional_commits :: bool
  arg_changelog :: "string option"

text \<open>
  What the run finds outside. \<open>env_stdout\<close> gives the standard output of a shell command,
  or \<open>None\<close> when the command exits with an error (\<^verbatim>\<open>CalledProcessError\<close>).
  \<open>env_version_main\<close> is what \<^verbatim>\<open>version.main\<close> returns, \<open>env_changelog_update\<close> is
  \<^verbatim>\<open>changelog.update\<close>, \<open>env_git_tags\<close> is \<^verbatim>\<open>Git().list_tags()\<close>: the three are taken
  as given, not modelled. \<open>env_read_text\<close> gives the text of a file under the
  working directory, or \<open>None\<close> when there is no such file. \<open>env_commit_types\<close> and
  \<open>env_changelog_dir\<close> are the two entries of the conventional-commits configuration.
\<close>

record environment =
  env_cwd :: string
  env_stdout :: "string \<Rightarrow> string option"
  env_project :: project_definition
  env_today :: date
  env_git_tags :: "string list"
  env_version_main :: "bool \<times> string"
  env_commit_types :: "commit_type list"
  env_changelog_dir :: string
  env_read_text :: "string \<Rightarrow> string option"
  env_changelog_update :: "string \<Rightarrow> string option \<Rightarrow> string \<Rightarrow> string option
                           \<Rightarrow> string \<times> string"

definition shell :: "environment \<Rightarrow> string \<Rightarrow> string run" where
  "shell env cmd =
     (case env_stdout env cmd of
        None \<Rightarrow> (Inl CalledProcessError, [Shell cmd])
      | Some out \<Rightarrow> (Inr out, [Shell cmd]))"

definition write_text :: "string \<Rightarrow> string \<Rightarrow> unit run" where
  "write_text path text = (Inr (), [Write_text path text])"

definition mkdir :: "string \<Rightarrow> unit run" where
  "mkdir path = (Inr (), [Mkdir path])"

text \<open>The single and the double quote, and a path below the working directory.\<close>

definition sq :: string where
  "sq = [CHR 0x27]"

definition dq :: string where
  "dq = [CHR 0x22]"

definition in_cwd :: "environment \<Rightarrow> string \<Rightarrow> string" where
  "in_cwd env name = env_cwd env @ ''/'' @ name"

text \<open>\<^verbatim>\<open>s.split(sep)\<close> for a separator of one character.\<close>

fun split_on :: "char \<Rightarrow> string \<Rightarrow> string list" where
  "split_on sep [] = [[]]"
| "split_on sep (c # cs) =
     (if c = sep then [] # split_on sep cs
      else (case split_on sep cs of
              [] \<Rightarrow> [[c]]
            | part # parts \<Rightarrow> (c # part) # parts))"

text \<open>\<^verbatim>\<open>date.isoformat()\<close>: \<^verbatim>\<open>YYYY-MM-DD\<close>, each number padded with zeros.\<close>

definition zfill :: "nat \<Rightarrow> string \<Rightarrow> string" where
  "zfill width s = replicate (width - length s) (CHR ''0'') @ s"

definition isoformat :: "date \<Rightarrow> string" where
  "isoformat d =
     zfill 4 (str_nat (year d)) @ ''-'' @ zfill 2 (str_nat (month d))
     @ ''-'' @ zfill 2 (str_nat (day d))"

subsection \<open>helper.py\<close>

text \<open>\<^verbatim>\<open>get_project_name\<close> (lines 181-196).\<close>

definition get_project_name :: "environment \<Rightarrow> string \<Rightarrow> string run" where
  "get_project_name env remote =
     and_then (shell env (''git remote get-url '' @ remote))
       (\<lambda>out. result (strip (remove_all ''.git'' (last (split_on (CHR ''/'') out)))))"

text \<open>
  \<^verbatim>\<open>find_signing_key\<close> (lines 199-221): a failing command gives the empty string.
\<close>

definition find_signing_key :: "environment \<Rightarrow> string run" where
  "find_signing_key env =
     (case env_stdout env ''git config user.signingkey'' of
        None \<Rightarrow> (Inr [], [Shell ''git config user.signingkey''])
      | Some out \<Rightarrow> (Inr (strip out), [Shell ''git config user.signingkey'']))"

text \<open>\<^verbatim>\<open>get_last_release_version\<close> (lines 131-141).\<close>

definition get_last_release_version :: "environment \<Rightarrow> string option" where
  "get_last_release_version env =
     (if env_git_tags env = [] then None else Some (last (env_git_tags env)))"

text \<open>
  \<^verbatim>\<open>update_version\<close> of helper.py (lines 224-250): the arguments it hands to
  \<^verbatim>\<open>version.main\<close>, and what that returns.
\<close>

definition helper_update_version :: "environment \<Rightarrow> string option \<Rightarrow> bool
                                     \<Rightarrow> (bool \<times> string) run" where
  "helper_update_version env to develop =
     (Inr (env_version_main env),
      [Version_main ([Some ''--quiet'', Some ''update'', to]
                     @ (if develop then [Some ''--develop''] else []))])"

text \<open>\<^verbatim>\<open>commit_files\<close> (lines 36-69).\<close>

definition commit_files :: "environment \<Rightarrow> string \<Rightarrow> string \<Rightarrow> string \<Rightarrow> bool \<Rightarrow> string run" where
  "commit_files env filename commit_msg git_signing_key changelog =
     and_then (shell env (''git add '' @ filename)) (\<lambda>_.
     and_then (shell env (''git add *__version__.py || echo '' @ sq
                          @ ''ignoring __version__'' @ sq)) (\<lambda>_.
     and_then (if changelog then shell env ''git add CHANGELOG.md'' else result []) (\<lambda>_.
     if git_signing_key \<noteq> []
     then shell env (''git commit -S'' @ git_signing_key @ '' --no-verify -m ''
                     @ sq @ commit_msg @ sq)
     else shell env (''git commit --no-verify -m '' @ sq @ commit_msg @ sq))))"

subsection \<open>The changelog builder as \<^verbatim>\<open>prepare\<close> runs it\<close>

text \<open>
  \<^verbatim>\<open>_get_git_log\<close> (lines 69-98 of conventional_commits.py). When the first command
  fails the exception is caught, and the next line reads a variable that was never
  assigned.
\<close>

definition get_git_log :: "environment \<Rightarrow> string list option run" where
  "get_git_log env =
     (case env_stdout env ''git tag | sort -V | tail -1'' of
        None \<Rightarrow> (Inl UnboundLocalError, [Shell ''git tag | sort -V | tail -1''])
      | Some tag \<Rightarrow>
          and_then (Inr tag, [Shell ''git tag | sort -V | tail -1'']) (\<lambda>tag.
          and_then (shell env (if tag \<noteq> []
                               then ''git log '' @ dq @ strip tag @ ''..HEAD'' @ dq
                                    @ '' --oneline''
                               else ''git log HEAD --oneline'')) (\<lambda>out.
          result (if out \<noteq> [] then Some (split_on (CHR 0x0A) (strip out)) else None))))"

text \<open>
  \<^verbatim>\<open>create_changelog_file\<close> (lines 64-67), with the text it wrote: line 113 of
  \<^verbatim>\<open>prepare\<close> reads the file back.
\<close>

definition create_changelog_file :: "environment \<Rightarrow> changelog_builder \<Rightarrow> string
                                     \<Rightarrow> (string \<times> string) run" where
  "create_changelog_file env self output_file =
     and_then (get_git_log env) (\<lambda>commit_list.
       case sort_commits self commit_list of
         Inl e \<Rightarrow> abort e
       | Inr commit_dict \<Rightarrow>
           let changelog = build_changelog_file self (isoformat (env_today env)) commit_dict
           in and_then (write_text output_file changelog) (\<lambda>_.
                result (output_file, changelog)))"

subsection \<open>\<^verbatim>\<open>prepare\<close> (lines 42-179 of prepare.py)\<close>

text \<open>Lines 62-67: the release version, by the calendar, by the next patch, or as given.\<close>

definition select_release_version :: "prepare_args \<Rightarrow> environment \<Rightarrow> failure + string option" where
  "select_release_version args env =
     (if arg_calendar args
      then map_sum id Some (calculate_calendar_version (env_project env) (env_today env))
      else if arg_patch args
      then map_sum id Some (get_next_patch_version (env_project env))
      else Inr (arg_release_version args))"

text \<open>
  The constructor of \<^verbatim>\<open>ChangelogBuilder\<close> (lines 43-62 of conventional_commits.py), as
  \<^verbatim>\<open>main\<close> of that file calls it with arguments that name the project: it makes the
  changelog directory.
\<close>

definition changelog_builder_init :: "environment \<Rightarrow> changelog_builder
                                      \<Rightarrow> changelog_builder run" where
  "changelog_builder_init env cargs =
     and_then (mkdir (in_cwd env (env_changelog_dir env))) (\<lambda>_. result cargs)"

text \<open>
  Line 97 of prepare.py creates the builder with the keywords \<^verbatim>\<open>terminal\<close> and
  \<^verbatim>\<open>args\<close>. The constructor of conventional_commits.py (lines 43-47) takes
  \<^verbatim>\<open>shell_cmd_runner\<close> and \<^verbatim>\<open>args\<close>: the call raises \<^verbatim>\<open>TypeError\<close> before the body of
  the constructor runs, so no directory is made and no builder comes back.
\<close>

definition new_changelog_builder :: "changelog_builder \<Rightarrow> changelog_builder run" where
  "new_changelog_builder cargs = abort TypeError"

text \<open>
  Lines 86-118: the conventional-commits branch. The builder is created, writes the
  changelog, and the file is committed. The result is \<^verbatim>\<open>changelog_bool\<close> and
  \<^verbatim>\<open>changelog_text\<close>.
\<close>

definition changelog_header :: string where
  "changelog_header =
     ''# Changelog\<newline>\<newline>''
     @ ''All notable changes to this project will be documented in this file.\<newline>\<newline>''"

definition conventional_commits_changelog :: "environment \<Rightarrow> string \<Rightarrow> string \<Rightarrow> string
     \<Rightarrow> string option \<Rightarrow> (bool \<times> string) run" where
  "conventional_commits_changelog env space_name project_name git_signing_key
     release_version =
     (let output = ''v'' @ fmt release_version @ ''.md'';
          cargs = \<lparr>commit_types = env_commit_types env, space = space_name,
                   project = project_name,
                   current_version = get_last_release_version env,
                   next_version = release_version\<rparr>
      in and_then (new_changelog_builder cargs) (\<lambda>changelog_builder.
         and_then (create_changelog_file env changelog_builder
                     (in_cwd env (env_changelog_dir env) @ ''/'' @ output))
           (\<lambda>(output_file, written).
         and_then (commit_files env output_file
                     (''Changelog created for release to '' @ fmt release_version)
                     git_signing_key False) (\<lambda>_.
         result (False, remove_all changelog_header written)))))"

text \<open>
  Lines 119-150: the branch of the hand-written changelog, \<^verbatim>\<open>CHANGELOG.md\<close> or the file
  of \<^verbatim>\<open>args.changelog\<close> when it is one.
\<close>

definition manual_changelog :: "prepare_args \<Rightarrow> environment \<Rightarrow> string option
                                \<Rightarrow> (bool \<times> string) run" where
  "manual_changelog args env release_version =
     (let change_log_path =
            (case arg_changelog args of
               None \<Rightarrow> ''CHANGELOG.md''
             | Some name \<Rightarrow>
                 if name \<noteq> [] \<and> env_read_text env name \<noteq> None then name
                 else ''CHANGELOG.md'')
      in case env_read_text env change_log_path of
           None \<Rightarrow> abort FileNotFoundError
         | Some text \<Rightarrow>
             let versioned = env_changelog_update env text release_version
                               (arg_git_tag_prefix args) release_version;
                 found = (if fst versioned \<noteq> [] then versioned
                          else env_changelog_update env text release_version
                                 (arg_git_tag_prefix args) None)
             in if fst found = [] then abort (SystemExit 1)
                else and_then (write_text (in_cwd env change_log_path) (fst found)) (\<lambda>_.
                       result (True, snd found)))"

text \<open>Lines 79-179: what \<^verbatim>\<open>prepare\<close> does once the tag is known to be free.\<close>

definition prepare_release :: "prepare_args \<Rightarrow> environment \<Rightarrow> string \<Rightarrow> string \<Rightarrow> string option
                               \<Rightarrow> string \<Rightarrow> bool run" where
  "prepare_release args env git_signing_key project_name release_version git_version =
     and_then (helper_update_version env release_version False) (\<lambda>(executed, filename).
       if \<not> executed then result False
       else
         and_then (if arg_conventional_commits args
                   then conventional_commits_changelog env (arg_space args) project_name
                          git_signing_key release_version
                   else manual_changelog args env release_version)
           (\<lambda>(changelog_bool, changelog_text).
         let commit_msg = ''Automatic release to '' @ fmt release_version in
         and_then (commit_files env filename commit_msg git_signing_key changelog_bool) (\<lambda>_.
         and_then (if git_signing_key \<noteq> []
                   then shell env (''git tag -u '' @ git_signing_key @ '' '' @ git_version
                                   @ '' -m '' @ sq @ commit_msg @ sq)
                   else shell env (''git tag '' @ git_version
                                   @ '' -m '' @ sq @ commit_msg @ sq)) (\<lambda>_.
         and_then (write_text ''.release.md'' changelog_text) (\<lambda>_.
         result True)))))"

text \<open>
  \<^verbatim>\<open>prepare\<close>: the signing key and the project name (lines 47-60), the release version
  (lines 62-67), the guard on the tag (lines 71-77), then the rest.
\<close>

definition prepare :: "prepare_args \<Rightarrow> environment \<Rightarrow> bool run" where
  "prepare args env =
     and_then (case arg_git_signing_key args of
                 Some key \<Rightarrow> result key
               | None \<Rightarrow> find_signing_key env) (\<lambda>git_signing_key.
     and_then (case arg_project args of
                 Some name \<Rightarrow> result name
               | None \<Rightarrow> get_project_name env ''origin'') (\<lambda>project_name.
     and_then (case select_release_version args env of
                 Inl e \<Rightarrow> abort e
               | Inr v \<Rightarrow> result v) (\<lambda>release_version.
     let git_version = arg_git_tag_prefix args @ fmt release_version in
     if git_version \<in> set (env_git_tags env)
     then abort (SystemExit 1)
     else prepare_release args env git_signing_key project_name release_version
            git_version)))"

section \<open>Properties of the version calculator\<close>



text \<open>
  C4. When the current version's (major, minor) equals today's (YY, MM): a version with a
  dev marker gives \<^verbatim>\<open>YY.MM.micro\<close>, the micro unchanged; a final release (no dev marker)
  gives \<^verbatim>\<open>YY.MM.(micro+1)\<close>.
\<close>

theorem calendar_version_same_slot:
  assumes "get_current_version pd = Inr v"
    and "major v = year today mod 100"
    and "minor v = month today"
  shows "calculate_calendar_version pd today
         = Inr (release_str (year today mod 100) (month today)
                  (if dev v = None then micro v + 1 else micro v))"
  using assms by (simp add: calculate_calendar_version_def)

theorem calendar_version_same_slot_witness:
  "calculate_calendar_version
     (Current_version \<lparr>major = 22, minor = 3, micro = 1, dev = Some 3\<rparr>)
     \<lparr>year = 2022, month = 3, day = 9\<rparr> = Inr ''22.3.1''
   \<and> calculate_calendar_version
     (Current_version \<lparr>major = 22, minor = 3, micro = 1, dev = None\<rparr>)
     \<lparr>year = 2022, month = 3, day = 9\<rparr> = Inr ''22.3.2''"
  using calendar_version_same_slot
          [of "Current_version \<lparr>major = 22, minor = 3, micro = 1, dev = Some 3\<rparr>"
              "\<lparr>major = 22, minor = 3, micro = 1, dev = Some 3\<rparr>"
              "\<lparr>year = 2022, month = 3, day = 9\<rparr>"]
        calendar_version_same_slot
          [of "Current_version \<lparr>major = 22, minor = 3, micro = 1, dev = None\<rparr>"
              "\<lparr>major = 22, minor = 3, micro = 1, dev = None\<rparr>"
              "\<lparr>year = 2022, month = 3, day = 9\<rparr>"]
  by (simp add: release_str_def)

text \<open>
  C8. \<^verbatim>\<open>get_next_patch_version\<close>: a current version with a dev marker gives
  \<^verbatim>\<open>major.minor.micro\<close>, the marker stripped and the micro unchanged; a current version
  without one gives \<^verbatim>\<open>major.minor.(micro+1)\<close>.
\<close>

theorem next_patch_version:
  assumes "get_current_version pd = Inr v"
  shows "get_next_patch_version pd
         = Inr (release_str (major v) (minor v)
                  (if dev v = None then micro v + 1 else micro v))"
  using assms by (simp add: get_next_patch_version_def)

theorem next_patch_version_witness:
  "get_next_patch_version
     (Current_version \<lparr>major = 20, minor = 4, micro = 1, dev = Some 3\<rparr>) = Inr ''20.4.1''
   \<and> get_next_patch_version
     (Current_version \<lparr>major = 20, minor = 6, micro = 1, dev = None\<rparr>) = Inr ''20.6.2''"
  using next_patch_version
          [of "Current_version \<lparr>major = 20, minor = 4, micro = 1, dev = Some 3\<rparr>"
              "\<lparr>major = 20, minor = 4, micro = 1, dev = Some 3\<rparr>"]
        next_patch_version
          [of "Current_version \<lparr>major = 20, minor = 6, micro = 1, dev = None\<rparr>"
              "\<lparr>major = 20, minor = 6, micro = 1, dev = None\<rparr>"]
  by (simp add: release_str_def)

text \<open>
  C2. A current version ahead of today's calendar slot should end the run. The first
  branch of \<^verbatim>\<open>calculate_calendar_version\<close> is taken whenever the minor is below today's
  month, whatever the major: version 30.2.1 on a day of May 2024 is ahead of 24.5, and the
  function returns \<^verbatim>\<open>24.5.0\<close> instead of exiting.
\<close>

theorem calendar_version_ahead_returns:
  "calculate_calendar_version
     (Current_version \<lparr>major = 30, minor = 2, micro = 1, dev = None\<rparr>)
     \<lparr>year = 2024, month = 5, day = 17\<rparr> = Inr ''24.5.0''"
  by (simp add: calculate_calendar_version_def release_str_def)

text \<open>
  When the exit is reached: the major is above YY and the minor not below MM, or the major
  is YY and the minor above MM.
\<close>

lemma calendar_version_exit_iff:
  "(calculate_calendar_version (Current_version v) today = Inl (SystemExit 1))
   = ((year today mod 100 < major v \<and> month today \<le> minor v)
      \<or> (major v = year today mod 100 \<and> month today < minor v))"
  by (auto simp: calculate_calendar_version_def)

section \<open>Properties of the commit classifier\<close>

subsection \<open>The loops as folds\<close>

lemma split_once_space:
  "CHR '' '' \<in> set line \<Longrightarrow> split_once line = [line_hash line, line_message line]"
proof -
  assume "CHR '' '' \<in> set line"
  then have "dropWhile (\<lambda>c. c \<noteq> CHR '' '') line \<noteq> []"
    by (simp add: dropWhile_eq_Nil_conv)
  then show ?thesis
    by (cases "dropWhile (\<lambda>c. c \<noteq> CHR '' '') line")
       (simp_all add: split_once_def line_hash_def line_message_def)
qed

lemma dict_append_not_Nil: "dict_append d key entry \<noteq> []"
  by (cases d) (auto split: if_splits)

lemma entries_Nil: "entries [] g = []"
  by (simp add: entries_def)

lemma entries_dict_append:
  "entries (dict_append d key entry) g = entries d g @ (if g = key then [entry] else [])"
  by (induction d) (auto simp: entries_def)

lemma sort_commit_pair:
  "sort_commit link [sha, msg] cts d
   = Inr (foldl (add_rule link sha msg) d (filter (\<lambda>ct. matches ct msg) cts))"
  by (induction cts arbitrary: d)
     (auto simp: matches_def rule_entry_def add_rule_def split: option.splits)

lemma foldl_add_rule_Nil:
  "(foldl (add_rule link sha msg) d cts = []) = (d = [] \<and> cts = [])"
  by (induction cts arbitrary: d) (auto simp: add_rule_def dict_append_not_Nil)

lemma entries_foldl_add_rule:
  "entries (foldl (add_rule link sha msg) d cts) g
   = entries d g @ map (rule_entry link sha msg) (filter (\<lambda>ct. group ct = g) cts)"
  by (induction cts arbitrary: d) (auto simp: add_rule_def entries_dict_append)

lemma sort_lines_spaces:
  "list_all (\<lambda>line. CHR '' '' \<in> set line) lines \<Longrightarrow>
   sort_lines link cts lines d = Inr (foldl (add_line link cts) d lines)"
  by (induction lines arbitrary: d)
     (simp_all add: split_once_space sort_commit_pair add_line_def)

lemma foldl_add_line_Nil:
  "(foldl (add_line link cts) d lines = [])
   = (d = [] \<and> \<not> list_ex (conventional cts) lines)"
  by (induction lines arbitrary: d)
     (auto simp: add_line_def conventional_def foldl_add_rule_Nil)

lemma entries_foldl_add_line:
  "entries (foldl (add_line link cts) d lines) g
   = entries d g
     @ concat (map (\<lambda>line. map (rule_entry link (line_hash line) (line_message line))
                            (filter (\<lambda>ct. matches ct (line_message line) \<and> group ct = g) cts))
                 lines)"
  by (induction lines arbitrary: d)
     (simp_all add: add_line_def entries_foldl_add_rule)

lemma foldl_add_line_filter:
  "foldl (add_line link cts) d (filter (conventional cts) lines)
   = foldl (add_line link cts) d lines"
  by (induction lines arbitrary: d) (simp_all add: add_line_def conventional_def)

lemma log_lines_spaces: "log_lines lines \<Longrightarrow> list_all (\<lambda>line. CHR '' '' \<in> set line) lines"
  by (simp add: log_lines_def list_all_iff)

lemma log_lines_filter: "log_lines lines \<Longrightarrow> log_lines (filter P lines)"
  by (simp add: log_lines_def list_all_iff)

lemma sort_commits_fold:
  "log_lines lines \<Longrightarrow>
   sort_commits self (Some lines)
   = (if list_ex (conventional (commit_types self)) lines
      then Inr (foldl (add_line (commit_link self) (commit_types self)) [] lines)
      else Inl (SystemExit 1))"
  by (simp add: sort_commits_def sort_lines_spaces log_lines_spaces foldl_add_line_Nil)

subsection \<open>Every matching rule adds an entry\<close>

text \<open>
  C1. The classifier should apply the first matching rule only and stop, so that a commit
  gives exactly one entry, under the first matching rule's group. The inner loop has no
  \<^verbatim>\<open>break\<close>: with the rules \<^verbatim>\<open>fix\<close> and \<^verbatim>\<open>fix-ci\<close>, the commit
  \<^verbatim>\<open>fix-ci: pin the runner\<close> matches both (the first with the hyphen as separator), and
  \<^verbatim>\<open>_sort_commits\<close> enters it twice, under \<^verbatim>\<open>Bug Fixes\<close> and again under \<^verbatim>\<open>CI\<close>.
\<close>

theorem second_matching_rule_also_applied:
  "sort_commits
     \<lparr>commit_types = [\<lparr>message = ''fix'', group = ''Bug Fixes''\<rparr>,
                      \<lparr>message = ''fix-ci'', group = ''CI''\<rparr>],
      space = ''greenbone'', project = ''pontos'',
      current_version = None, next_version = None\<rparr>
     (Some [''abc1234 fix-ci: pin the runner''])
   = Inr [(''Bug Fixes'',
           [''ci: pin the runner [abc1234](https://github.com/greenbone/pontos/commit/abc1234)'']),
          (''CI'',
           [''pin the runner [abc1234](https://github.com/greenbone/pontos/commit/abc1234)''])]"
  by (simp add: sort_commits_def commit_link_def split_once_def re_compile_def lower_def
        isspace_def changelog_entry_def strip_def ADDRESS_def)

text \<open>
  What the two loops do as they stand, for literal rule texts and log lines with a hash
  and a subject of which at least one matches a rule: the entries of a group are, commit
  by commit in log order and rule by rule in rule order, one entry for every rule of that
  group that matches the commit.
\<close>

lemma every_matching_rule_adds_entry:
  assumes "plain_rules (commit_types self)"
    and "log_lines lines"
    and "list_ex (conventional (commit_types self)) lines"
  shows "\<exists>d. sort_commits self (Some lines) = Inr d
           \<and> (\<forall>g. entries d g
                    = concat (map (\<lambda>line. map (rule_entry (commit_link self)
                                                  (line_hash line) (line_message line))
                                             (filter (\<lambda>ct. matches ct (line_message line)
                                                            \<and> group ct = g)
                                                (commit_types self)))
                                lines))"
  using assms(2,3)
  by (simp add: sort_commits_fold entries_foldl_add_line entries_Nil)

lemma every_matching_rule_adds_entry_example:
  "\<exists>d. sort_commits
          \<lparr>commit_types = [\<lparr>message = ''fix'', group = ''Bug Fixes''\<rparr>,
                           \<lparr>message = ''fix-ci'', group = ''CI''\<rparr>],
           space = ''greenbone'', project = ''pontos'',
           current_version = None, next_version = None\<rparr>
          (Some [''abc1234 fix-ci: pin the runner'', ''def5678 update the readme'']) = Inr d
       \<and> entries d ''Bug Fixes''
           = [''ci: pin the runner [abc1234](https://github.com/greenbone/pontos/commit/abc1234)'']
       \<and> entries d ''CI''
           = [''pin the runner [abc1234](https://github.com/greenbone/pontos/commit/abc1234)'']"
proof -
  let ?self = "\<lparr>commit_types = [\<lparr>message = ''fix'', group = ''Bug Fixes''\<rparr>,
                                 \<lparr>message = ''fix-ci'', group = ''CI''\<rparr>],
                 space = ''greenbone'', project = ''pontos'',
                 current_version = None, next_version = None\<rparr>"
  let ?lines = "[''abc1234 fix-ci: pin the runner'', ''def5678 update the readme'']"
  have rules: "plain_rules (commit_types ?self)"
    by (simp add: plain_rules_def literal_def ascii_def)
  have lines: "log_lines ?lines"
    by (simp add: log_lines_def ascii_def)
  have some: "list_ex (conventional (commit_types ?self)) ?lines"
    by (simp add: conventional_def matches_def line_message_def re_compile_def lower_def
          isspace_def)
  from every_matching_rule_adds_entry [OF rules lines some]
  obtain d where d: "sort_commits ?self (Some ?lines) = Inr d"
    and e: "\<And>g. entries d g
              = concat (map (\<lambda>line. map (rule_entry (commit_link ?self)
                                            (line_hash line) (line_message line))
                                       (filter (\<lambda>ct. matches ct (line_message line) \<and> group ct = g)
                                          (commit_types ?self)))
                          ?lines)"
    by blast
  have "entries d ''Bug Fixes''
         = [''ci: pin the runner [abc1234](https://github.com/greenbone/pontos/commit/abc1234)'']"
    unfolding e
    by (simp add: matches_def rule_entry_def line_message_def line_hash_def commit_link_def
          re_compile_def lower_def isspace_def changelog_entry_def strip_def ADDRESS_def)
  moreover have "entries d ''CI''
         = [''pin the runner [abc1234](https://github.com/greenbone/pontos/commit/abc1234)'']"
    unfolding e
    by (simp add: matches_def rule_entry_def line_message_def line_hash_def commit_link_def
          re_compile_def lower_def isspace_def changelog_entry_def strip_def ADDRESS_def)
  ultimately show ?thesis using d by blast
qed


subsection \<open>No conventional commit ends the run\<close>

text \<open>
  For log lines that hold a space, \<^verbatim>\<open>_sort_commits\<close> ends the run with \<^verbatim>\<open>sys.exit(1)\<close>
  exactly when no line matches any rule, and fails in no other way; the lines that match
  no rule can be left out without changing the result.
\<close>

lemma exit_iff_no_conventional_commit:
  assumes "log_lines lines"
  shows "(sort_commits self (Some lines) = Inl (SystemExit 1))
           = (\<not> list_ex (conventional (commit_types self)) lines)
         \<and> isl (sort_commits self (Some lines))
           = (\<not> list_ex (conventional (commit_types self)) lines)
         \<and> sort_commits self (Some lines)
           = sort_commits self (Some (filter (conventional (commit_types self)) lines))
         \<and> sort_commits self None = Inl (SystemExit 1)"
proof -
  have kept: "list_ex (conventional (commit_types self))
                (filter (conventional (commit_types self)) lines)
              = list_ex (conventional (commit_types self)) lines"
    by (auto simp: list_ex_iff)
  have "sort_commits self (Some (filter (conventional (commit_types self)) lines))
        = sort_commits self (Some lines)"
    using assms
    by (simp add: sort_commits_fold log_lines_filter kept foldl_add_line_filter)
  moreover have "sort_commits self None = Inl (SystemExit 1)"
    by (simp add: sort_commits_def)
  ultimately show ?thesis
    using assms by (simp add: sort_commits_fold)
qed

text \<open>
  A log line without a space. \<^verbatim>\<open>_get_git_log\<close> strips the whole output of
  \<^verbatim>\<open>git log --oneline\<close> before it splits it into lines, so the last line, the oldest
  commit, loses a trailing space: a commit with an empty subject comes out as its hash
  alone.
\<close>

lemma git_log_last_line_is_stripped:
  "get_git_log
     (env\<lparr>env_stdout :=
              (\<lambda>cmd. if cmd = ''git log HEAD --oneline''
                      then Some ''abc1234 added: fixed the thing\<newline>def5678 \<newline>''
                      else Some [])\<rparr>)
   = (Inr (Some [''abc1234 added: fixed the thing'', ''def5678'']),
      [Shell ''git tag | sort -V | tail -1'', Shell ''git log HEAD --oneline''])"
  by (simp add: get_git_log_def and_then_def shell_def result_def strip_def isspace_def)

text \<open>
  C7. Classification should fail exactly when no commit matches any rule, and a commit
  that matches no rule should be dropped without an error. On a log line that holds no
  space, \<^verbatim>\<open>commit[1]\<close> of line 131 raises \<^verbatim>\<open>IndexError\<close>: the first commit below matches
  the rule \<^verbatim>\<open>Added\<close>, the second has no subject and matches nothing, and the run ends
  with the exception instead of the one entry.
\<close>

theorem line_without_subject_raises:
  "matches \<lparr>message = ''Added'', group = ''Added:''\<rparr> ''added: fixed the thing''
   \<and> sort_commits
       \<lparr>commit_types = [\<lparr>message = ''Added'', group = ''Added:''\<rparr>],
        space = ''greenbone'', project = ''pontos'',
        current_version = None, next_version = None\<rparr>
       (Some [''abc1234 added: fixed the thing'', ''def5678'']) = Inl IndexError"
  by (simp add: sort_commits_def commit_link_def split_once_def matches_def re_compile_def
        lower_def isspace_def)


subsection \<open>When a rule matches\<close>








section \<open>Properties of the rendered changelog\<close>

text \<open>
  C3. The footer should be one comparison line. With a current version and no next
  version, line 187 puts a line feed in front of the current version: the footer is the
  line \<^verbatim>\<open>[Unreleased]: <base>/compare/\<close> followed by the line \<^verbatim>\<open>1.2.2...HEAD\<close>, and no
  line ends in \<^verbatim>\<open>compare/1.2.2...HEAD\<close>.
\<close>

theorem footer_current_only_two_lines:
  "build_changelog_file
     \<lparr>commit_types = [\<lparr>message = ''Added'', group = ''Added:''\<rparr>],
      space = ''greenbone'', project = ''pontos'',
      current_version = Some ''1.2.2'', next_version = None\<rparr>
     ''2022-03-09''
     [(''Added:'', [''fixed the thing [abc1234](https://github.com/greenbone/pontos/commit/abc1234)''])]
   = ''# Changelog\<newline>\<newline>''
     @ ''All notable changes to this project will be documented in this file.\<newline>\<newline>''
     @ ''## [Unreleased]\<newline>\<newline>''
     @ ''\<newline>## Added:\<newline>''
     @ ''* fixed the thing [abc1234](https://github.com/greenbone/pontos/commit/abc1234)\<newline>''
     @ ''\<newline>[Unreleased]: https://github.com/greenbone/pontos/compare/''
     @ ''\<newline>1.2.2...HEAD''"
  by (simp add: build_changelog_file_def changelog_section_def changelog_footer_def
        entries_def ADDRESS_def)

text \<open>The two other branches of the footer give one line, as the claim says.\<close>

lemma footer_both_versions:
  assumes "next \<noteq> []" and "current \<noteq> []"
  shows "changelog_footer (self\<lparr>current_version := Some current, next_version := Some next\<rparr>)
         = ''\<newline>['' @ next @ '']: '' @ ADDRESS @ space self @ ''/'' @ project self
           @ ''/compare/'' @ current @ ''...'' @ next"
  using assms by (simp add: changelog_footer_def)

lemma footer_no_version:
  "changelog_footer (self\<lparr>current_version := None, next_version := None\<rparr>)
   = ''\<newline>[Unreleased]: '' @ ADDRESS @ space self @ ''/'' @ project self
     @ ''/compare/???...HEAD''"
  by (simp add: changelog_footer_def)

section \<open>Properties of the version command\<close>

text \<open>
  C10. Let \<open>v1\<close> be the safe form of the version given to \<^verbatim>\<open>update_version\<close>, called with
  \<^verbatim>\<open>develop=True\<close>. When \<^verbatim>\<open>check_develop\<close> finds a dev marker in \<open>v1\<close>, the version written
  to both files is the safe form of \<open>v1\<close> itself, with no \<^verbatim>\<open>.dev1\<close> appended; when it finds
  none, the version written is the safe form of \<open>v1\<close> followed by \<^verbatim>\<open>.dev1\<close>. The files are
  written when the version file is missing, or \<^verbatim>\<open>force\<close> is set, or the version file holds
  another version.
\<close>

theorem develop_suffix_only_without_marker:
  assumes "safe_version v = Inr v1"
    and "check_develop v1 = Inr is_develop"
    and "safe_version (if is_develop then v1 else v1 @ ''.dev1'') = Inr v2"
    and "pyproject_toml_path self = Poetry_version p"
    and "version_file_path self = No_version_file \<or> force
         \<or> (\<exists>current c. version_file_path self = Version_module current
                          \<and> safe_version current = Inr c \<and> c \<noteq> v2)"
  shows "update_version safe_version check_develop self v True force
         = (None, self\<lparr>pyproject_toml_path := Poetry_version v2,
                        version_file_path := Version_module v2\<rparr>)"
  using assms
  by (auto simp: update_version_def write_version_def update_pyproject_version_def
        update_version_file_def get_version_from_pyproject_toml_def
        module_current_version_def versions_equal_def Let_def
      split: version_file.splits)

theorem develop_suffix_only_without_marker_witness:
  "update_version Inr (\<lambda>s. Inr (s = ''21.4.1.dev3''))
     \<lparr>pyproject_toml_path = Poetry_version ''21.4.0'',
      version_file_path = Version_module ''21.4.0''\<rparr> ''21.4.1.dev3'' True False
   = (None, \<lparr>pyproject_toml_path = Poetry_version ''21.4.1.dev3'',
             version_file_path = Version_module ''21.4.1.dev3''\<rparr>)
   \<and> update_version Inr (\<lambda>s. Inr (s = ''21.4.1.dev3''))
     \<lparr>pyproject_toml_path = Poetry_version ''21.4.0'',
      version_file_path = Version_module ''21.4.0''\<rparr> ''21.4.1'' True False
   = (None, \<lparr>pyproject_toml_path = Poetry_version ''21.4.1.dev1'',
             version_file_path = Version_module ''21.4.1.dev1''\<rparr>)"
  using develop_suffix_only_without_marker
          [of Inr "''21.4.1.dev3''" "''21.4.1.dev3''" "\<lambda>s. Inr (s = ''21.4.1.dev3'')" True
              "''21.4.1.dev3''"
              "\<lparr>pyproject_toml_path = Poetry_version ''21.4.0'',
                version_file_path = Version_module ''21.4.0''\<rparr>" "''21.4.0''" False]
        develop_suffix_only_without_marker
          [of Inr "''21.4.1''" "''21.4.1''" "\<lambda>s. Inr (s = ''21.4.1.dev3'')" False
              "''21.4.1.dev1''"
              "\<lparr>pyproject_toml_path = Poetry_version ''21.4.0'',
                version_file_path = Version_module ''21.4.0''\<rparr>" "''21.4.0''" False]
  by simp

section \<open>Properties of the release preparation\<close>

text \<open>
  C9. When the tag computed from the prefix and the release version is among the
  existing tags, \<^verbatim>\<open>prepare\<close> ends with \<^verbatim>\<open>sys.exit(1)\<close>, and all it has done by then is to
  look up the signing key and the project name where the arguments do not give them: no
  call of \<^verbatim>\<open>version.main\<close>, no file written, no \<^verbatim>\<open>git add\<close>, \<^verbatim>\<open>git commit\<close> or
  \<^verbatim>\<open>git tag\<close>.
\<close>

theorem tag_collision_aborts_before_mutation:
  assumes "select_release_version args env = Inr release_version"
    and "arg_git_tag_prefix args @ fmt release_version \<in> set (env_git_tags env)"
    and "arg_project args \<noteq> None \<or> env_stdout env ''git remote get-url origin'' \<noteq> None"
  shows "prepare args env
         = (Inl (SystemExit 1),
            (if arg_git_signing_key args = None
             then [Shell ''git config user.signingkey''] else [])
            @ (if arg_project args = None
               then [Shell ''git remote get-url origin''] else []))"
  using assms
  by (auto simp: prepare_def and_then_def result_def abort_def find_signing_key_def
        get_project_name_def shell_def
      split: option.splits)

theorem tag_collision_aborts_before_mutation_witness:
  "prepare
     \<lparr>arg_git_tag_prefix = ''v'', arg_git_signing_key = Some ''1234'',
      arg_project = Some ''pontos'', arg_space = ''greenbone'', arg_calendar = False,
      arg_patch = False, arg_release_version = Some ''1.0.0'',
      arg_conventional_commits = False, arg_changelog = None\<rparr>
     \<lparr>env_cwd = ''/work'', env_stdout = (\<lambda>cmd. Some []),
      env_project = Current_version \<lparr>major = 1, minor = 0, micro = 0, dev = Some 1\<rparr>,
      env_today = \<lparr>year = 2022, month = 3, day = 9\<rparr>,
      env_git_tags = [''v1.0.0''],
      env_version_main = (True, ''pyproject.toml''),
      env_commit_types = [],
      env_changelog_dir = ''changelog'',
      env_read_text = (\<lambda>name. Some ''## [Unreleased]''),
      env_changelog_update = (\<lambda>text version prefix containing. (''updated'', ''notes''))\<rparr>
   = (Inl (SystemExit 1), [])"
  using tag_collision_aborts_before_mutation
    [of "\<lparr>arg_git_tag_prefix = ''v'', arg_git_signing_key = Some ''1234'',
          arg_project = Some ''pontos'', arg_space = ''greenbone'', arg_calendar = False,
          arg_patch = False, arg_release_version = Some ''1.0.0'',
          arg_conventional_commits = False, arg_changelog = None\<rparr>"
        "\<lparr>env_cwd = ''/work'', env_stdout = (\<lambda>cmd. Some []),
          env_project = Current_version \<lparr>major = 1, minor = 0, micro = 0, dev = Some 1\<rparr>,
          env_today = \<lparr>year = 2022, month = 3, day = 9\<rparr>,
          env_git_tags = [''v1.0.0''],
          env_version_main = (True, ''pyproject.toml''),
          env_commit_types = [],
          env_changelog_dir = ''changelog'',
          env_read_text = (\<lambda>name. Some ''## [Unreleased]''),
          env_changelog_update = (\<lambda>text version prefix containing. (''updated'', ''notes''))\<rparr>"
        "Some ''1.0.0''"]
  by (simp add: select_release_version_def)

text \<open>
  The same run with a free tag, for comparison: the version files are updated, the
  changelog and the release text are written, and a commit and a tag are made.
\<close>

lemma free_tag_prepares:
  "prepare
     \<lparr>arg_git_tag_prefix = ''v'', arg_git_signing_key = Some ''1234'',
      arg_project = Some ''pontos'', arg_space = ''greenbone'', arg_calendar = False,
      arg_patch = False, arg_release_version = Some ''1.0.0'',
      arg_conventional_commits = False, arg_changelog = None\<rparr>
     \<lparr>env_cwd = ''/work'', env_stdout = (\<lambda>cmd. Some []),
      env_project = Current_version \<lparr>major = 1, minor = 0, micro = 0, dev = Some 1\<rparr>,
      env_today = \<lparr>year = 2022, month = 3, day = 9\<rparr>,
      env_git_tags = [''v0.9.0''],
      env_version_main = (True, ''pyproject.toml''),
      env_commit_types = [],
      env_changelog_dir = ''changelog'',
      env_read_text = (\<lambda>name. Some ''## [Unreleased]''),
      env_changelog_update = (\<lambda>text version prefix containing. (''updated'', ''notes''))\<rparr>
   = (Inr True,
      [Version_main [Some ''--quiet'', Some ''update'', Some ''1.0.0''],
       Write_text ''/work/CHANGELOG.md'' ''updated'',
       Shell ''git add pyproject.toml'',
       Shell (''git add *__version__.py || echo '' @ sq @ ''ignoring __version__'' @ sq),
       Shell ''git add CHANGELOG.md'',
       Shell (''git commit -S1234 --no-verify -m '' @ sq @ ''Automatic release to 1.0.0'' @ sq),
       Shell (''git tag -u 1234 v1.0.0 -m '' @ sq @ ''Automatic release to 1.0.0'' @ sq),
       Write_text ''.release.md'' ''notes''])"
  by (simp add: prepare_def prepare_release_def manual_changelog_def commit_files_def
        helper_update_version_def select_release_version_def and_then_def result_def
        abort_def shell_def write_text_def in_cwd_def)

end
